theory Spec2Isabelle
  imports Main "HOL-Library.AList"
begin

section \<open>Data model\<close>

text \<open>
  The enums of the store. \<open>MessageStatus\<close> is declared in the migration
  (\<^verbatim>\<open>CREATE TYPE "MessageStatus" AS ENUM ('SENT', 'DELIVERED', 'READ')\<close>); the seven
  values of \<open>CallStatus\<close> are the ones \<^verbatim>\<open>callController.ts\<close> uses and names.
\<close>

datatype MessageStatus = SENT | DELIVERED | READ

datatype CallStatus = INITIATED | RINGING | ACCEPTED | ENDED | REJECTED | MISSED | BUSY

text \<open>The order SENT < DELIVERED < READ, as a rank.\<close>

fun statusRank :: "MessageStatus \<Rightarrow> nat" where
  "statusRank SENT = 0"
| "statusRank DELIVERED = 1"
| "statusRank READ = 2"

text \<open>
  Rows of the tables the controllers touch. Identifiers are strings. Only the columns
  that the message and call handlers read or write are kept: content, attachments, type
  and timestamps of a message never decide a branch.
  \<open>deliveredTo\<close> and \<open>readBy\<close> are the many-to-many relations
  \<^verbatim>\<open>_MessageDeliveredTo\<close> and \<^verbatim>\<open>_MessageReadBy\<close>; their primary key is the pair
  (message, user), so a relation holds a user at most once. They are lists because the
  handlers read \<^verbatim>\<open>.length\<close> and return the ids in order.
  \<open>members\<close> of a conversation is the \<^verbatim>\<open>userId\<close> of each of its
  \<^verbatim>\<open>conversation_members\<close> rows, in the order the store returns them; the unique index
  on (conversationId, userId) keeps a user from being a member twice.
\<close>

record User =
  name :: string
  avatarUrl :: "string option"

record Conversation =
  members :: "string list"

record Message =
  senderId :: string
  receiverId :: string
  conversationId :: "string option"
  clientId :: "string option"
  status :: MessageStatus
  deliveredTo :: "string list"
  readBy :: "string list"

text \<open>
  Modelled from the spec: the \<^verbatim>\<open>Call\<close> table is not declared in the migration of
  this repository. The row holds the fields that the spec's data model and
  \<^verbatim>\<open>callController.ts\<close> name; the generated id is its only key.
\<close>

record Call =
  callerId :: string
  callReceiverId :: string
  callType :: string
  callConversationId :: "string option"
  roomId :: string
  callStatus :: CallStatus
  startTime :: "nat option"
  endTime :: "nat option"
  duration :: "int option"

text \<open>
  A table is the list of its rows under their primary keys. \<open>findUnique\<close> is
  \<^verbatim>\<open>prisma.<model>.findUnique({ where: { id } })\<close>, \<open>updateRow\<close> replaces the row
  under a key that is there, \<open>createRow\<close> appends a row under a key that is not
  (the callers test both).
\<close>

type_synonym 'a table = "(string \<times> 'a) list"

definition findUnique :: "'a table \<Rightarrow> string \<Rightarrow> 'a option" where
  "findUnique t k = map_of t k"

definition updateRow :: "'a table \<Rightarrow> string \<Rightarrow> 'a \<Rightarrow> 'a table" where
  "updateRow t k v = AList.update k v t"

definition createRow :: "'a table \<Rightarrow> string \<Rightarrow> 'a \<Rightarrow> 'a table" where
  "createRow t k v = t @ [(k, v)]"

record store =
  users :: "User table"
  conversations :: "Conversation table"
  messages :: "Message table"
  calls :: "Call table"

text \<open>
  What a handler does besides changing the store: the events it hands to
  \<^verbatim>\<open>sendEventToUser(userId, eventName, payload)\<close>, in order, and the HTTP response.
  Timestamps inside payloads are left out. The fields of the payloads, in order:
  \<open>MessageNewPayload\<close> message id, conversation id, sender id;
  \<open>MessageStatusPayload\<close> message id, status word, acknowledging user;
  \<open>CallIncomingPayload\<close> call id, caller id and caller name (both from the caller's
  row, absent without one), type, room id, conversation id;
  \<open>CallRingingPayload\<close> call id; \<open>CallAcceptedPayload\<close> call id, receiver id;
  \<open>CallEndedPayload\<close> call id, final status, duration.
  The bodies carry the fields of the JSON answers that depend on the store:
  \<open>AlreadyBody\<close> message text and message id; \<open>DeliveredBody\<close> message id,
  \<open>deliveredTo\<close>, status; \<open>ReadBody\<close> message id, \<open>readBy\<close>,
  \<open>deliveredTo\<close>, status; \<open>SentBody\<close> message id, sender, receiver, status;
  \<open>InitiatedBody\<close> call id, call row, token; \<open>TokenBody\<close> the token.
\<close>

datatype payload =
    MessageNewPayload string string string
  | MessageStatusPayload string string string
  | CallIncomingPayload string "string option" "string option" string string "string option"
  | CallRingingPayload string
  | CallAcceptedPayload string string
  | CallEndedPayload string CallStatus int

type_synonym event = "string \<times> string \<times> payload"

datatype body =
    ErrorBody string
  | AlreadyBody string string
  | DeliveredBody string "string list" MessageStatus
  | ReadBody string "string list" "string list" MessageStatus
  | SentBody string string string MessageStatus
  | InitiatedBody string Call string
  | TokenBody string
  | SuccessBody

type_synonym response = "nat \<times> body"

section \<open>JavaScript truthiness of optional strings\<close>

text \<open>
  A request field is absent (\<open>None\<close>) or a string. \<^verbatim>\<open>!v\<close> holds for an absent
  field and for the empty string; \<^verbatim>\<open>v || d\<close> is \<open>d\<close> in exactly those cases.
\<close>

definition falsy :: "string option \<Rightarrow> bool" where
  "falsy v = (case v of None \<Rightarrow> True | Some t \<Rightarrow> t = [])"

definition orDefault :: "string option \<Rightarrow> string \<Rightarrow> string" where
  "orDefault v d = (case v of None \<Rightarrow> d | Some t \<Rightarrow> if t = [] then d else t)"

section \<open>Delivery state machine (messageController.ts)\<close>

text \<open>
  \<^verbatim>\<open>connect: { id: targetUserId }\<close> on a relation: adds the pair unless it is there.
  The user must exist (foreign key of the relation table to \<^verbatim>\<open>users\<close>); the
  handlers below test that before they call this.
\<close>

definition connectUser :: "string list \<Rightarrow> string \<Rightarrow> string list" where
  "connectUser rel u = (if u \<in> set rel then rel else rel @ [u])"

text \<open>
  \<^verbatim>\<open>message.conversationId && message.conversation\<close>: the conversation included
  with the message, when the message names one.
\<close>

definition messageConversation :: "store \<Rightarrow> Message \<Rightarrow> Conversation option" where
  "messageConversation s message =
     (case conversationId message of
        None \<Rightarrow> None
      | Some cid \<Rightarrow> if cid = [] then None else findUnique (conversations s) cid)"

text \<open>
  \<^verbatim>\<open>message.conversation.members.filter((member) => member.userId !== message.senderId).length\<close>
\<close>

definition recipientCount :: "Conversation \<Rightarrow> string \<Rightarrow> nat" where
  "recipientCount conv sender = length (filter (\<lambda>member. member \<noteq> sender) (members conv))"

text \<open>\<^verbatim>\<open>prisma.message.update({ where: { id }, data })\<close> on a row that exists.\<close>

definition putMessage :: "store \<Rightarrow> string \<Rightarrow> Message \<Rightarrow> store" where
  "putMessage s mid message = s\<lparr>messages := updateRow (messages s) mid message\<rparr>"

text \<open>
  \<open>markDelivered\<close> after the message was found. The status block reads
  \<^verbatim>\<open>message.conversation\<close> (loaded before the update) and the re-read message.
\<close>

definition deliveredStatusUpdate :: "store \<Rightarrow> string \<Rightarrow> Message \<Rightarrow> Conversation option \<Rightarrow> MessageStatus \<times> store" where
  "deliveredStatusUpdate s1 mid message conv =
     (case conv of
        None \<Rightarrow> (status message, s1)
      | Some c \<Rightarrow>
          (case findUnique (messages s1) mid of
             None \<Rightarrow> (status message, s1)
           | Some updatedMessage \<Rightarrow>
               if length (deliveredTo updatedMessage) \<ge> recipientCount c (senderId message)
               then (DELIVERED, putMessage s1 mid (updatedMessage\<lparr>status := DELIVERED\<rparr>))
               else (status message, s1)))"

definition markDeliveredFound :: "store \<Rightarrow> string \<Rightarrow> string \<Rightarrow> Message \<Rightarrow> store \<times> event list \<times> response" where
  "markDeliveredFound s mid targetUserId message =
     (if targetUserId \<in> set (deliveredTo message)
      then (s, [], (200, AlreadyBody ''Message already marked as delivered'' mid))
      else if findUnique (users s) targetUserId = None
      then (s, [], (500, ErrorBody ''Failed to mark message as delivered''))
      else
        let s1 = putMessage s mid (message\<lparr>deliveredTo := connectUser (deliveredTo message) targetUserId\<rparr>);
            (updatedStatus, s2) = deliveredStatusUpdate s1 mid message (messageConversation s message)
        in (s2,
            [(senderId message, ''message:status'', MessageStatusPayload mid ''delivered'' targetUserId)],
            (200, DeliveredBody mid
                    (case findUnique (messages s2) mid of None \<Rightarrow> [] | Some finalMessage \<Rightarrow> deliveredTo finalMessage)
                    updatedStatus)))"

text \<open>
  \<^verbatim>\<open>POST /messages/:id/delivered\<close>. \<open>userId\<close> is \<^verbatim>\<open>req.user?.userId\<close>,
  \<open>mid\<close> is \<^verbatim>\<open>req.params.id\<close>, \<open>toUserId\<close> is \<^verbatim>\<open>req.body.toUserId\<close>.
\<close>

definition markDelivered :: "store \<Rightarrow> string option \<Rightarrow> string \<Rightarrow> string option \<Rightarrow> store \<times> event list \<times> response" where
  "markDelivered s userId mid toUserId =
     (case userId of
        None \<Rightarrow> (s, [], (401, ErrorBody ''Authentication required''))
      | Some uid \<Rightarrow>
          if uid = [] then (s, [], (401, ErrorBody ''Authentication required''))
          else
            (case findUnique (messages s) mid of
               None \<Rightarrow> (s, [], (404, ErrorBody ''Message not found''))
             | Some message \<Rightarrow> markDeliveredFound s mid (orDefault toUserId uid) message))"

text \<open>
  \<open>markRead\<close>: the status block has a third branch, guarded by the old status.
  In both status blocks the re-read finds the row that was updated a line before, so the
  \<open>None\<close> cases of the re-read are never taken.
\<close>

definition readStatusUpdate :: "store \<Rightarrow> string \<Rightarrow> Message \<Rightarrow> Conversation option \<Rightarrow> MessageStatus \<times> store" where
  "readStatusUpdate s1 mid message conv =
     (case conv of
        None \<Rightarrow> (status message, s1)
      | Some c \<Rightarrow>
          (case findUnique (messages s1) mid of
             None \<Rightarrow>
               if status message \<noteq> READ
               then (DELIVERED, s1)
               else (status message, s1)
           | Some updatedMessage \<Rightarrow>
               if length (readBy updatedMessage) \<ge> recipientCount c (senderId message)
               then (READ, putMessage s1 mid (updatedMessage\<lparr>status := READ\<rparr>))
               else if status message \<noteq> READ
               then (DELIVERED, putMessage s1 mid (updatedMessage\<lparr>status := DELIVERED\<rparr>))
               else (status message, s1)))"

definition markReadFound :: "store \<Rightarrow> string \<Rightarrow> string \<Rightarrow> Message \<Rightarrow> store \<times> event list \<times> response" where
  "markReadFound s mid targetUserId message =
     (if targetUserId \<in> set (readBy message)
      then (s, [], (200, AlreadyBody ''Message already marked as read'' mid))
      else if findUnique (users s) targetUserId = None
      then (s, [], (500, ErrorBody ''Failed to mark message as read''))
      else
        let isDelivered = targetUserId \<in> set (deliveredTo message);
            s1 = putMessage s mid
                   (if isDelivered
                    then message\<lparr>readBy := connectUser (readBy message) targetUserId\<rparr>
                    else message\<lparr>readBy := connectUser (readBy message) targetUserId,
                                 deliveredTo := connectUser (deliveredTo message) targetUserId\<rparr>);
            (updatedStatus, s2) = readStatusUpdate s1 mid message (messageConversation s message)
        in (s2,
            [(senderId message, ''message:status'', MessageStatusPayload mid ''read'' targetUserId)],
            (200, ReadBody mid
                    (case findUnique (messages s2) mid of None \<Rightarrow> [] | Some finalMessage \<Rightarrow> readBy finalMessage)
                    (case findUnique (messages s2) mid of None \<Rightarrow> [] | Some finalMessage \<Rightarrow> deliveredTo finalMessage)
                    updatedStatus)))"

definition markRead :: "store \<Rightarrow> string option \<Rightarrow> string \<Rightarrow> string option \<Rightarrow> store \<times> event list \<times> response" where
  "markRead s userId mid readByUserId =
     (case userId of
        None \<Rightarrow> (s, [], (401, ErrorBody ''Authentication required''))
      | Some uid \<Rightarrow>
          if uid = [] then (s, [], (401, ErrorBody ''Authentication required''))
          else
            (case findUnique (messages s) mid of
               None \<Rightarrow> (s, [], (404, ErrorBody ''Message not found''))
             | Some message \<Rightarrow> markReadFound s mid (orDefault readByUserId uid) message))"

section \<open>Sending a message (messageController.ts)\<close>

record Attachment =
  attachmentType :: "string option"
  url :: "string option"

text \<open>
  \<^verbatim>\<open>conversation.members.find((member) => member.userId !== userId) || conversation.members[0]\<close>
  and then \<^verbatim>\<open>receiverMember?.userId || userId\<close>.
\<close>

definition resolveReceiverId :: "Conversation \<Rightarrow> string \<Rightarrow> string" where
  "resolveReceiverId conv userId =
     (case find (\<lambda>member. member \<noteq> userId) (members conv) of
        Some receiverMember \<Rightarrow> orDefault (Some receiverMember) userId
      | None \<Rightarrow>
          (case members conv of
             [] \<Rightarrow> userId
           | first # rest \<Rightarrow> orDefault (Some first) userId))"

text \<open>
  \<^verbatim>\<open>conversation.members.filter((member) => member.userId !== userId).map((member) => member.userId)\<close>:
  the list the \<^verbatim>\<open>message:new\<close> broadcast runs over.
\<close>

definition recipientIds :: "Conversation \<Rightarrow> string \<Rightarrow> string list" where
  "recipientIds conv userId = filter (\<lambda>member. member \<noteq> userId) (members conv)"

text \<open>\<^verbatim>\<open>!attachments || attachments.length === 0\<close>\<close>

definition noAttachments :: "Attachment list option \<Rightarrow> bool" where
  "noAttachments attachments = (case attachments of None \<Rightarrow> True | Some as \<Rightarrow> as = [])"

definition badAttachment :: "Attachment \<Rightarrow> bool" where
  "badAttachment a = (falsy (attachmentType a) \<or> falsy (url a))"

text \<open>
  The unique index \<^verbatim>\<open>messages_clientId_key\<close>: a non-null \<open>clientId\<close> that a stored
  message already carries cannot be inserted again.
\<close>

definition clientIdTaken :: "store \<Rightarrow> string option \<Rightarrow> bool" where
  "clientIdTaken s cid =
     (case cid of
        None \<Rightarrow> False
      | Some c \<Rightarrow> list_ex (\<lambda>row. clientId (snd row) = Some c) (messages s))"

text \<open>
  \<^verbatim>\<open>prisma.message.create\<close> throws (and the handler answers 500) when the generated
  id \<open>newId\<close> is in use, when sender or receiver is not a row of \<^verbatim>\<open>users\<close>
  (foreign keys), or when the \<open>clientId\<close> is taken.
\<close>

definition createMessageFails :: "store \<Rightarrow> string \<Rightarrow> Message \<Rightarrow> bool" where
  "createMessageFails s newId message =
     (findUnique (users s) (senderId message) = None
      \<or> findUnique (users s) (receiverId message) = None
      \<or> clientIdTaken s (clientId message)
      \<or> findUnique (messages s) newId \<noteq> None)"

definition sendMessageFound :: "store \<Rightarrow> string \<Rightarrow> string \<Rightarrow> string option \<Rightarrow> Attachment list option \<Rightarrow> string \<Rightarrow> Conversation \<Rightarrow> store \<times> event list \<times> response" where
  "sendMessageFound s userId cid clientId' attachments newId conv =
     (if userId \<notin> set (members conv)
      then (s, [], (403, ErrorBody ''You are not a member of this conversation''))
      else if list_ex badAttachment (case attachments of None \<Rightarrow> [] | Some as \<Rightarrow> as)
      then (s, [], (400, ErrorBody ''Each attachment must have type and url''))
      else
        let message = \<lparr>senderId = userId,
                       receiverId = resolveReceiverId conv userId,
                       conversationId = Some cid,
                       clientId = (if falsy clientId' then None else clientId'),
                       status = SENT,
                       deliveredTo = [],
                       readBy = []\<rparr>
        in if createMessageFails s newId message
           then (s, [], (500, ErrorBody ''Failed to send message''))
           else (s\<lparr>messages := createRow (messages s) newId message\<rparr>,
                 map (\<lambda>recipientId. (recipientId, ''message:new'', MessageNewPayload newId cid userId))
                     (recipientIds conv userId),
                 (201, SentBody newId userId (receiverId message) (status message))))"

text \<open>
  \<^verbatim>\<open>POST /messages/send\<close>. \<open>newId\<close> is the id the store generates for the new row.
\<close>

definition sendMessage :: "store \<Rightarrow> string option \<Rightarrow> string option \<Rightarrow> string option \<Rightarrow> string option \<Rightarrow> Attachment list option \<Rightarrow> string \<Rightarrow> store \<times> event list \<times> response" where
  "sendMessage s userId conversationId' clientId' text' attachments newId =
     (case userId of
        None \<Rightarrow> (s, [], (401, ErrorBody ''Authentication required''))
      | Some uid \<Rightarrow>
          if uid = [] then (s, [], (401, ErrorBody ''Authentication required''))
          else
            (case conversationId' of
               None \<Rightarrow> (s, [], (400, ErrorBody ''conversationId is required''))
             | Some cid \<Rightarrow>
                 if cid = [] then (s, [], (400, ErrorBody ''conversationId is required''))
                 else if falsy text' \<and> noAttachments attachments
                 then (s, [], (400, ErrorBody ''Either text or attachments must be provided''))
                 else
                   (case findUnique (conversations s) cid of
                      None \<Rightarrow> (s, [], (404, ErrorBody ''Conversation not found''))
                    | Some conv \<Rightarrow> sendMessageFound s uid cid clientId' attachments newId conv)))"

section \<open>Call signalling (callController.ts, livekitService.ts)\<close>

text \<open>
  The token service. \<open>toJwt\<close> stands for the signing done by the SDK's
  \<^verbatim>\<open>AccessToken\<close> (room, identity, display name); \<open>generateToken\<close> throws, here
  \<open>None\<close>, when key or secret is missing.
\<close>

record LiveKitService =
  apiKey :: string
  apiSecret :: string
  toJwt :: "string \<Rightarrow> string \<Rightarrow> string option \<Rightarrow> string"

definition generateToken :: "LiveKitService \<Rightarrow> string \<Rightarrow> string \<Rightarrow> string option \<Rightarrow> string option" where
  "generateToken lk roomName participantIdentity participantName =
     (if apiKey lk = [] \<or> apiSecret lk = [] then None
      else Some (toJwt lk roomName participantIdentity participantName))"

text \<open>Decimal digits of \<^verbatim>\<open>Date.now()\<close>, as the template string prints a number.\<close>

definition digitChar :: "nat \<Rightarrow> char" where
  "digitChar d = ''0123456789'' ! d"

function showNat :: "nat \<Rightarrow> string" where
  "showNat n = (if n < 10 then [digitChar n] else showNat (n div 10) @ [digitChar (n mod 10)])"
  by pat_completeness auto
termination
  by (relation "measure (\<lambda>n. n)") auto

declare showNat.simps [simp del]

text \<open>\<^verbatim>\<open>`room-${callerId.substring(0, 8)}-${Date.now()}`\<close>\<close>

definition makeRoomId :: "string \<Rightarrow> nat \<Rightarrow> string" where
  "makeRoomId caller now = ''room-'' @ take 8 caller @ ''-'' @ showNat now"

text \<open>
  The \<^verbatim>\<open>CallType\<close> enum is not declared in the migration of this repository
  either: which strings are call types is the parameter \<open>isCallType\<close>.
  \<^verbatim>\<open>prisma.call.create\<close> throws on a type outside the enum and on an id in use;
  the token is requested after the row is written.
\<close>

definition initiateCallValid :: "(string \<Rightarrow> bool) \<Rightarrow> LiveKitService \<Rightarrow> store \<Rightarrow> string \<Rightarrow> string \<Rightarrow> string \<Rightarrow> string option \<Rightarrow> nat \<Rightarrow> string \<Rightarrow> store \<times> event list \<times> response" where
  "initiateCallValid isCallType lk s caller receiver type' conversationId' now newId =
     (let room = makeRoomId caller now;
          call = \<lparr>callerId = caller,
                  callReceiverId = receiver,
                  callType = type',
                  callConversationId = conversationId',
                  roomId = room,
                  callStatus = INITIATED,
                  startTime = None,
                  endTime = None,
                  duration = None\<rparr>
      in if isCallType type' \<and> findUnique (calls s) newId = None
         then
           let s1 = s\<lparr>calls := createRow (calls s) newId call\<rparr>;
               callerRow = findUnique (users s1) caller
           in (case generateToken lk room caller (map_option name callerRow) of
                 None \<Rightarrow> (s1, [], (500, ErrorBody ''Failed to initiate call''))
               | Some token \<Rightarrow>
                   (s1,
                    [(receiver, ''call:incoming'',
                      CallIncomingPayload newId
                        (map_option (\<lambda>u. caller) callerRow)
                        (map_option name callerRow)
                        type' room conversationId')],
                    (201, InitiatedBody newId call token)))
         else (s, [], (500, ErrorBody ''Failed to initiate call'')))"

text \<open>
  \<^verbatim>\<open>POST /calls/initiate\<close>. \<open>caller\<close> is \<^verbatim>\<open>req.user.userId\<close>, set by the
  authentication middleware; \<open>now\<close> is the reading of \<^verbatim>\<open>Date.now()\<close>; \<open>newId\<close> is
  the id the store generates for the call.
\<close>

definition initiateCall :: "(string \<Rightarrow> bool) \<Rightarrow> LiveKitService \<Rightarrow> store \<Rightarrow> string \<Rightarrow> string option \<Rightarrow> string option \<Rightarrow> string option \<Rightarrow> nat \<Rightarrow> string \<Rightarrow> store \<times> event list \<times> response" where
  "initiateCall isCallType lk s caller receiverId' type' conversationId' now newId =
     (case receiverId' of
        None \<Rightarrow> (s, [], (400, ErrorBody ''Receiver and call type are required''))
      | Some receiver \<Rightarrow>
          (case type' of
             None \<Rightarrow> (s, [], (400, ErrorBody ''Receiver and call type are required''))
           | Some ty \<Rightarrow>
               if receiver = [] \<or> ty = []
               then (s, [], (400, ErrorBody ''Receiver and call type are required''))
               else initiateCallValid isCallType lk s caller receiver ty conversationId' now newId))"

text \<open>
  \<^verbatim>\<open>POST /calls/accept\<close>. \<open>callId'\<close> is \<^verbatim>\<open>req.body.callId\<close>; without it
  \<^verbatim>\<open>findUnique\<close> throws. The update is written before the token is requested.
\<close>

definition acceptCall :: "LiveKitService \<Rightarrow> store \<Rightarrow> string \<Rightarrow> string option \<Rightarrow> nat \<Rightarrow> store \<times> event list \<times> response" where
  "acceptCall lk s userId callId' now =
     (case callId' of
        None \<Rightarrow> (s, [], (500, ErrorBody ''Failed to accept call''))
      | Some callId \<Rightarrow>
          (case findUnique (calls s) callId of
             None \<Rightarrow> (s, [], (404, ErrorBody ''Call not found or unauthorized''))
           | Some call \<Rightarrow>
               if callReceiverId call \<noteq> userId
               then (s, [], (404, ErrorBody ''Call not found or unauthorized''))
               else
                 let s1 = s\<lparr>calls := updateRow (calls s) callId
                                        (call\<lparr>callStatus := ACCEPTED, startTime := Some now\<rparr>)\<rparr>;
                     receiver = findUnique (users s1) userId
                 in (case generateToken lk (roomId call) userId (map_option name receiver) of
                       None \<Rightarrow> (s1, [], (500, ErrorBody ''Failed to accept call''))
                     | Some token \<Rightarrow>
                         (s1,
                          [(callerId call, ''call:accepted'', CallAcceptedPayload callId userId)],
                          (200, TokenBody token)))))"

text \<open>
  \<^verbatim>\<open>finalStatus as CallStatus\<close> is a compile-time cast only: the store accepts the
  string when it names a value of the enum and throws otherwise.
\<close>

definition parseCallStatus :: "string \<Rightarrow> CallStatus option" where
  "parseCallStatus v =
     (if v = ''INITIATED'' then Some INITIATED
      else if v = ''RINGING'' then Some RINGING
      else if v = ''ACCEPTED'' then Some ACCEPTED
      else if v = ''ENDED'' then Some ENDED
      else if v = ''REJECTED'' then Some REJECTED
      else if v = ''MISSED'' then Some MISSED
      else if v = ''BUSY'' then Some BUSY
      else None)"

text \<open>The string of each value of the enum, as a request carries it.\<close>

fun callStatusName :: "CallStatus \<Rightarrow> string" where
  "callStatusName INITIATED = ''INITIATED''"
| "callStatusName RINGING = ''RINGING''"
| "callStatusName ACCEPTED = ''ACCEPTED''"
| "callStatusName ENDED = ''ENDED''"
| "callStatusName REJECTED = ''REJECTED''"
| "callStatusName MISSED = ''MISSED''"
| "callStatusName BUSY = ''BUSY''"

text \<open>\<^verbatim>\<open>Math.floor((endTime.getTime() - call.startTime.getTime()) / 1000)\<close>, else 0.\<close>

definition callDuration :: "Call \<Rightarrow> nat \<Rightarrow> int" where
  "callDuration call endTime' =
     (case startTime call of
        None \<Rightarrow> 0
      | Some started \<Rightarrow> (int endTime' - int started) div 1000)"

text \<open>\<^verbatim>\<open>POST /calls/end\<close>. \<open>status'\<close> is \<^verbatim>\<open>req.body.status\<close>.\<close>

definition endCall :: "store \<Rightarrow> string \<Rightarrow> string option \<Rightarrow> string option \<Rightarrow> nat \<Rightarrow> store \<times> event list \<times> response" where
  "endCall s userId callId' status' now =
     (case callId' of
        None \<Rightarrow> (s, [], (500, ErrorBody ''Failed to end call''))
      | Some callId \<Rightarrow>
          (case findUnique (calls s) callId of
             None \<Rightarrow> (s, [], (404, ErrorBody ''Call not found''))
           | Some call \<Rightarrow>
               let isCaller = (callerId call = userId);
                   isReceiver = (callReceiverId call = userId)
               in if \<not> isCaller \<and> \<not> isReceiver
                  then (s, [], (403, ErrorBody ''Unauthorized''))
                  else
                    (case parseCallStatus (orDefault status' ''ENDED'') of
                       None \<Rightarrow> (s, [], (500, ErrorBody ''Failed to end call''))
                     | Some finalStatus \<Rightarrow>
                         (s\<lparr>calls := updateRow (calls s) callId
                                        (call\<lparr>callStatus := finalStatus,
                                              endTime := Some now,
                                              duration := (case startTime call of
                                                             None \<Rightarrow> None
                                                           | Some started \<Rightarrow> Some (callDuration call now))\<rparr>)\<rparr>,
                          [(if isCaller then callReceiverId call else callerId call, ''call:ended'',
                            CallEndedPayload callId finalStatus (callDuration call now))],
                          (200, SuccessBody)))))"

text \<open>\<^verbatim>\<open>POST /calls/ringing\<close>\<close>

definition reportRinging :: "store \<Rightarrow> string \<Rightarrow> string option \<Rightarrow> store \<times> event list \<times> response" where
  "reportRinging s userId callId' =
     (case callId' of
        None \<Rightarrow> (s, [], (500, ErrorBody ''Failed to report ringing''))
      | Some callId \<Rightarrow>
          (case findUnique (calls s) callId of
             None \<Rightarrow> (s, [], (404, ErrorBody ''Call not found''))
           | Some call \<Rightarrow>
               if callReceiverId call \<noteq> userId
               then (s, [], (404, ErrorBody ''Call not found''))
               else (s\<lparr>calls := updateRow (calls s) callId (call\<lparr>callStatus := RINGING\<rparr>)\<rparr>,
                     [(callerId call, ''call:ringing'', CallRingingPayload callId)],
                     (200, SuccessBody))))"

section \<open>Runs of acknowledgments, terminal states and a sample store\<close>




text \<open>The terminal call states of the specification.\<close>

fun terminal :: "CallStatus \<Rightarrow> bool" where
  "terminal ENDED = True"
| "terminal REJECTED = True"
| "terminal MISSED = True"
| "terminal BUSY = True"
| "terminal INITIATED = False"
| "terminal RINGING = False"
| "terminal ACCEPTED = False"

text \<open>
  A sample store: three users, a private conversation of alice and bob, a conversation
  whose only member is alice, a group of all three, and the messages \<open>m1\<close> and
  \<open>m2\<close> as \<open>sendMessage\<close> creates them for alice in the private conversation and
  in the group.
\<close>

definition demoMessage :: Message where
  "demoMessage = \<lparr>senderId = ''alice'', receiverId = ''bob'',
                   conversationId = Some ''c1'', clientId = None, status = SENT,
                   deliveredTo = [], readBy = []\<rparr>"

definition demoSolo :: Conversation where
  "demoSolo = \<lparr>members = [''alice'']\<rparr>"

definition demoGroup :: Conversation where
  "demoGroup = \<lparr>members = [''alice'', ''bob'', ''carol'']\<rparr>"

definition demoGroupMessage :: Message where
  "demoGroupMessage = \<lparr>senderId = ''alice'', receiverId = ''bob'',
                        conversationId = Some ''g1'', clientId = None, status = SENT,
                        deliveredTo = [], readBy = []\<rparr>"

definition demoStore :: store where
  "demoStore =
     \<lparr>users = [(''alice'', \<lparr>name = ''Alice'', avatarUrl = None\<rparr>),
               (''bob'', \<lparr>name = ''Bob'', avatarUrl = None\<rparr>),
               (''carol'', \<lparr>name = ''Carol'', avatarUrl = None\<rparr>)],
      conversations = [(''c1'', \<lparr>members = [''alice'', ''bob'']\<rparr>),
                       (''solo'', demoSolo),
                       (''g1'', demoGroup)],
      messages = [(''m1'', demoMessage), (''m2'', demoGroupMessage)],
      calls = []\<rparr>"



definition demoLiveKit :: LiveKitService where
  "demoLiveKit = \<lparr>apiKey = ''key'', apiSecret = ''secret'',
                   toJwt = (\<lambda>room identity displayName. ''jwt/'' @ room @ ''/'' @ identity)\<rparr>"

definition demoCallType :: "string \<Rightarrow> bool" where
  "demoCallType t = (t = ''AUDIO'' \<or> t = ''VIDEO'')"

text \<open>bob has read \<open>m1\<close>: the message is READ.\<close>

definition readStore :: store where
  "readStore = fst (markRead demoStore (Some ''bob'') ''m1'' None)"

text \<open>alice has called bob (call \<open>k1\<close>), and has then ended the call.\<close>

definition ringStore :: store where
  "ringStore = fst (initiateCall demoCallType demoLiveKit demoStore ''alice''
                      (Some ''bob'') (Some ''VIDEO'') None 1730000000000 ''k1'')"

definition endedStore :: store where
  "endedStore = fst (endCall ringStore ''alice'' (Some ''k1'') None 1730000005000)"

text \<open>The call row that the initiate of \<open>ringStore\<close> creates, and the row after the end.\<close>

definition demoCall :: Call where
  "demoCall = \<lparr>callerId = ''alice'', callReceiverId = ''bob'', callType = ''VIDEO'',
                callConversationId = None, roomId = makeRoomId ''alice'' 1730000000000,
                callStatus = INITIATED, startTime = None, endTime = None, duration = None\<rparr>"

definition endedCall :: Call where
  "endedCall = demoCall\<lparr>callStatus := ENDED, endTime := Some 1730000005000, duration := None\<rparr>"

section \<open>Lemmas on the store\<close>

lemma findUnique_updateRow [simp]:
  "findUnique (updateRow t k v) k' = (if k' = k then Some v else findUnique t k')"
  by (simp add: findUnique_def updateRow_def update_conv')

lemma findUnique_createRow:
  "findUnique t k = None \<Longrightarrow> findUnique (createRow t k v) k' = (if k' = k then Some v else findUnique t k')"
  by (auto simp: findUnique_def createRow_def map_add_def split: option.splits)

lemma findUnique_putMessage [simp]:
  "findUnique (messages (putMessage s mid m)) k =
     (if k = mid then Some m else findUnique (messages s) k)"
  by (simp add: putMessage_def)

lemma putMessage_twice [simp]: "putMessage (putMessage s mid a) mid b = putMessage s mid b"
  by (simp add: putMessage_def updateRow_def)

lemma putMessage_other_tables [simp]:
  "users (putMessage s mid m) = users s"
  "conversations (putMessage s mid m) = conversations s"
  "calls (putMessage s mid m) = calls s"
  by (simp_all add: putMessage_def)

lemma messageConversation_same:
  "conversationId m' = conversationId m \<Longrightarrow> conversations s' = conversations s
   \<Longrightarrow> messageConversation s' m' = messageConversation s m"
  by (simp add: messageConversation_def split: option.splits)

lemma messageConversation_putMessage [simp]:
  "messageConversation (putMessage s mid m) m' = messageConversation s m'"
  by (rule messageConversation_same) simp_all



section \<open>One acknowledgment that is new\<close>

text \<open>
  A delivery acknowledgment of a user who exists and is not yet in \<open>deliveredTo\<close> is
  one update of the row: the user is appended and the status becomes DELIVERED when the
  relation has reached the threshold, whatever the status was.
\<close>

lemma markDeliveredFound_new:
  assumes "t \<notin> set (deliveredTo m)" and "findUnique (users s) t \<noteq> None"
  shows "markDeliveredFound s mid t m =
     (putMessage s mid (m\<lparr>deliveredTo := deliveredTo m @ [t],
         status := (case messageConversation s m of
                      None \<Rightarrow> status m
                    | Some c \<Rightarrow> if recipientCount c (senderId m) \<le> Suc (length (deliveredTo m))
                               then DELIVERED else status m)\<rparr>),
      [(senderId m, ''message:status'', MessageStatusPayload mid ''delivered'' t)],
      (200, DeliveredBody mid (deliveredTo m @ [t])
              (case messageConversation s m of
                      None \<Rightarrow> status m
                    | Some c \<Rightarrow> if recipientCount c (senderId m) \<le> Suc (length (deliveredTo m))
                               then DELIVERED else status m)))"
  using assms
  by (cases "messageConversation s m")
     (simp_all add: markDeliveredFound_def deliveredStatusUpdate_def connectUser_def Let_def)

text \<open>The same for a read acknowledgment; the old status guards the last branch.\<close>

lemma markReadFound_new:
  assumes "t \<notin> set (readBy m)" and "findUnique (users s) t \<noteq> None"
  shows "markReadFound s mid t m =
     (putMessage s mid (m\<lparr>readBy := readBy m @ [t],
         deliveredTo := connectUser (deliveredTo m) t,
         status := (case messageConversation s m of
                      None \<Rightarrow> status m
                    | Some c \<Rightarrow> if recipientCount c (senderId m) \<le> Suc (length (readBy m))
                               then READ else if status m \<noteq> READ then DELIVERED else status m)\<rparr>),
      [(senderId m, ''message:status'', MessageStatusPayload mid ''read'' t)],
      (200, ReadBody mid (readBy m @ [t]) (connectUser (deliveredTo m) t)
              (case messageConversation s m of
                      None \<Rightarrow> status m
                    | Some c \<Rightarrow> if recipientCount c (senderId m) \<le> Suc (length (readBy m))
                               then READ else if status m \<noteq> READ then DELIVERED else status m)))"
  using assms
  by (cases "messageConversation s m")
     (auto simp add: markReadFound_def readStatusUpdate_def connectUser_def Let_def
           intro!: arg_cong [where f = "putMessage s mid"] Message.equality)

section \<open>Outcomes of one acknowledgment\<close>

lemma markDelivered_found:
  "uid \<noteq> [] \<Longrightarrow> findUnique (messages s) mid = Some m
   \<Longrightarrow> markDelivered s (Some uid) mid body = markDeliveredFound s mid (orDefault body uid) m"
  by (simp add: markDelivered_def)

lemma markRead_found:
  "uid \<noteq> [] \<Longrightarrow> findUnique (messages s) mid = Some m
   \<Longrightarrow> markRead s (Some uid) mid body = markReadFound s mid (orDefault body uid) m"
  by (simp add: markRead_def)

lemma markDeliveredFound_already:
  "t \<in> set (deliveredTo m) \<Longrightarrow> markDeliveredFound s mid t m =
     (s, [], (200, AlreadyBody ''Message already marked as delivered'' mid))"
  by (simp add: markDeliveredFound_def)

lemma markReadFound_already:
  "t \<in> set (readBy m) \<Longrightarrow> markReadFound s mid t m =
     (s, [], (200, AlreadyBody ''Message already marked as read'' mid))"
  by (simp add: markReadFound_def)

lemma markDeliveredFound_no_user:
  "t \<notin> set (deliveredTo m) \<Longrightarrow> findUnique (users s) t = None \<Longrightarrow> markDeliveredFound s mid t m =
     (s, [], (500, ErrorBody ''Failed to mark message as delivered''))"
  by (simp add: markDeliveredFound_def)

lemma markReadFound_no_user:
  "t \<notin> set (readBy m) \<Longrightarrow> findUnique (users s) t = None \<Longrightarrow> markReadFound s mid t m =
     (s, [], (500, ErrorBody ''Failed to mark message as read''))"
  by (simp add: markReadFound_def)

lemma markDelivered_not_found:
  "findUnique (messages s) mid = None \<Longrightarrow> fst (markDelivered s u mid body) = s \<and> fst (snd (markDelivered s u mid body)) = []"
  by (simp add: markDelivered_def split: option.splits)

lemma markRead_not_found:
  "findUnique (messages s) mid = None \<Longrightarrow> fst (markRead s u mid body) = s \<and> fst (snd (markRead s u mid body)) = []"
  by (simp add: markRead_def split: option.splits)

lemma connectUser_member [simp]: "t \<in> set (connectUser rel t)"
  by (simp add: connectUser_def)

lemma connectUser_distinct: "distinct rel \<Longrightarrow> distinct (connectUser rel t)"
  by (simp add: connectUser_def)

lemma connectUser_new: "t \<notin> set rel \<Longrightarrow> connectUser rel t = rel @ [t]"
  by (simp add: connectUser_def)





lemma markRead_cases:
  "fst (markRead s u mid body) = s \<or>
   (\<exists>uid m. u = Some uid \<and> uid \<noteq> [] \<and> findUnique (messages s) mid = Some m
      \<and> orDefault body uid \<notin> set (readBy m)
      \<and> fst (markRead s u mid body) =
          putMessage s mid (m\<lparr>readBy := readBy m @ [orDefault body uid],
            deliveredTo := connectUser (deliveredTo m) (orDefault body uid),
            status := (case messageConversation s m of
                      None \<Rightarrow> status m
                    | Some c \<Rightarrow> if recipientCount c (senderId m) \<le> Suc (length (readBy m))
                               then READ else if status m \<noteq> READ then DELIVERED else status m)\<rparr>))"
proof (cases "\<exists>uid m. u = Some uid \<and> uid \<noteq> [] \<and> findUnique (messages s) mid = Some m
      \<and> orDefault body uid \<notin> set (readBy m) \<and> findUnique (users s) (orDefault body uid) \<noteq> None")
  case True
  then obtain uid m where h: "u = Some uid" "uid \<noteq> []" "findUnique (messages s) mid = Some m"
    "orDefault body uid \<notin> set (readBy m)" "findUnique (users s) (orDefault body uid) \<noteq> None"
    by blast
  have "fst (markRead s u mid body) = fst (markReadFound s mid (orDefault body uid) m)"
    using h(1) markRead_found [OF h(2,3), of body] by simp
  then show ?thesis
    using h by (simp add: markReadFound_new [OF h(4,5)])
next
  case False
  then have "fst (markRead s u mid body) = s"
    by (auto simp: markRead_def markReadFound_def split: option.splits)
  then show ?thesis by simp
qed

lemma markDelivered_cases:
  "fst (markDelivered s u mid body) = s \<or>
   (\<exists>uid m. u = Some uid \<and> uid \<noteq> [] \<and> findUnique (messages s) mid = Some m
      \<and> orDefault body uid \<notin> set (deliveredTo m)
      \<and> fst (markDelivered s u mid body) =
          putMessage s mid (m\<lparr>deliveredTo := deliveredTo m @ [orDefault body uid],
            status := (case messageConversation s m of
                      None \<Rightarrow> status m
                    | Some c \<Rightarrow> if recipientCount c (senderId m) \<le> Suc (length (deliveredTo m))
                               then DELIVERED else status m)\<rparr>))"
proof (cases "\<exists>uid m. u = Some uid \<and> uid \<noteq> [] \<and> findUnique (messages s) mid = Some m
      \<and> orDefault body uid \<notin> set (deliveredTo m) \<and> findUnique (users s) (orDefault body uid) \<noteq> None")
  case True
  then obtain uid m where h: "u = Some uid" "uid \<noteq> []" "findUnique (messages s) mid = Some m"
    "orDefault body uid \<notin> set (deliveredTo m)" "findUnique (users s) (orDefault body uid) \<noteq> None"
    by blast
  have "fst (markDelivered s u mid body) = fst (markDeliveredFound s mid (orDefault body uid) m)"
    using h(1) markDelivered_found [OF h(2,3), of body] by simp
  then show ?thesis
    using h by (simp add: markDeliveredFound_new [OF h(4,5)])
next
  case False
  then have "fst (markDelivered s u mid body) = s"
    by (auto simp: markDelivered_def markDeliveredFound_def split: option.splits)
  then show ?thesis by simp
qed

text \<open>What an acknowledgment does to any row of the message table.\<close>

lemma markRead_row:
  assumes "findUnique (messages s) k = Some m"
    and "findUnique (messages (fst (markRead s u mid body))) k = Some m'"
  shows "m' = m \<or>
     (\<exists>t. t \<notin> set (readBy m) \<and>
        m' = m\<lparr>readBy := readBy m @ [t],
               deliveredTo := connectUser (deliveredTo m) t,
               status := (case messageConversation s m of
                      None \<Rightarrow> status m
                    | Some c \<Rightarrow> if recipientCount c (senderId m) \<le> Suc (length (readBy m))
                               then READ else if status m \<noteq> READ then DELIVERED else status m)\<rparr>)"
proof -
  consider (same) "fst (markRead s u mid body) = s"
    | (upd) uid m0 where "findUnique (messages s) mid = Some m0"
        "orDefault body uid \<notin> set (readBy m0)"
        "fst (markRead s u mid body) =
          putMessage s mid (m0\<lparr>readBy := readBy m0 @ [orDefault body uid],
            deliveredTo := connectUser (deliveredTo m0) (orDefault body uid),
            status := (case messageConversation s m0 of
                      None \<Rightarrow> status m0
                    | Some c \<Rightarrow> if recipientCount c (senderId m0) \<le> Suc (length (readBy m0))
                               then READ else if status m0 \<noteq> READ then DELIVERED else status m0)\<rparr>)"
    using markRead_cases [of s u mid body] by blast
  then show ?thesis
  proof cases
    case same
    then show ?thesis using assms by simp
  next
    case upd
    show ?thesis
    proof (cases "k = mid")
      case True
      then have "m0 = m" using upd(1) assms(1) by simp
      then show ?thesis using assms(2) upd(2,3) True by auto
    next
      case False
      then show ?thesis using assms upd(3) by simp
    qed
  qed
qed

lemma markDelivered_row:
  assumes "findUnique (messages s) k = Some m"
    and "findUnique (messages (fst (markDelivered s u mid body))) k = Some m'"
  shows "m' = m \<or>
     (\<exists>t. t \<notin> set (deliveredTo m) \<and>
        m' = m\<lparr>deliveredTo := deliveredTo m @ [t],
               status := (case messageConversation s m of
                      None \<Rightarrow> status m
                    | Some c \<Rightarrow> if recipientCount c (senderId m) \<le> Suc (length (deliveredTo m))
                               then DELIVERED else status m)\<rparr>)"
proof -
  consider (same) "fst (markDelivered s u mid body) = s"
    | (upd) uid m0 where "findUnique (messages s) mid = Some m0"
        "orDefault body uid \<notin> set (deliveredTo m0)"
        "fst (markDelivered s u mid body) =
          putMessage s mid (m0\<lparr>deliveredTo := deliveredTo m0 @ [orDefault body uid],
            status := (case messageConversation s m0 of
                      None \<Rightarrow> status m0
                    | Some c \<Rightarrow> if recipientCount c (senderId m0) \<le> Suc (length (deliveredTo m0))
                               then DELIVERED else status m0)\<rparr>)"
    using markDelivered_cases [of s u mid body] by blast
  then show ?thesis
  proof cases
    case same
    then show ?thesis using assms by simp
  next
    case upd
    show ?thesis
    proof (cases "k = mid")
      case True
      then have "m0 = m" using upd(1) assms(1) by simp
      then show ?thesis using assms(2) upd(2,3) True by auto
    next
      case False
      then show ?thesis using assms upd(3) by simp
    qed
  qed
qed

text \<open>The relation between readBy and deliveredTo is kept by both handlers.\<close>

lemma markRead_keeps_readBy_subset:
  assumes "findUnique (messages s) k = Some m" and "set (readBy m) \<subseteq> set (deliveredTo m)"
    and "findUnique (messages (fst (markRead s u mid body))) k = Some m'"
  shows "set (readBy m') \<subseteq> set (deliveredTo m')"
  using markRead_row [OF assms(1,3)] assms(2)
  by (auto simp: connectUser_def)

lemma markDelivered_keeps_readBy_subset:
  assumes "findUnique (messages s) k = Some m" and "set (readBy m) \<subseteq> set (deliveredTo m)"
    and "findUnique (messages (fst (markDelivered s u mid body))) k = Some m'"
  shows "set (readBy m') \<subseteq> set (deliveredTo m')"
  using markDelivered_row [OF assms(1,3)] assms(2)
  by auto

text \<open>A row that sendMessage adds has status SENT and empty relations.\<close>

lemma sendMessageFound_row:
  "fst (sendMessageFound s uid cid cl a newId conv) = s \<or>
   (findUnique (messages s) newId = None \<and>
    fst (sendMessageFound s uid cid cl a newId conv) =
      s\<lparr>messages := createRow (messages s) newId
           \<lparr>senderId = uid, receiverId = resolveReceiverId conv uid, conversationId = Some cid,
            clientId = (if falsy cl then None else cl),
            status = SENT, deliveredTo = [], readBy = []\<rparr>\<rparr>)"
  by (simp add: sendMessageFound_def createMessageFails_def Let_def)

lemma sendMessage_found_or_same:
  "fst (sendMessage s u c cl t a newId) = s \<or>
   (\<exists>uid cid conv. fst (sendMessage s u c cl t a newId) = fst (sendMessageFound s uid cid cl a newId conv))"
  by (auto simp: sendMessage_def split: option.splits)

lemma sendMessage_new_row:
  assumes "findUnique (messages s) k = None"
    and "findUnique (messages (fst (sendMessage s u c cl t a newId))) k = Some m"
  shows "status m = SENT \<and> deliveredTo m = [] \<and> readBy m = []"
proof -
  from sendMessage_found_or_same [of s u c cl t a newId]
  consider (same) "fst (sendMessage s u c cl t a newId) = s"
    | (row) uid cid conv where "findUnique (messages s) newId = None"
        "fst (sendMessage s u c cl t a newId) =
           s\<lparr>messages := createRow (messages s) newId
             \<lparr>senderId = uid, receiverId = resolveReceiverId conv uid, conversationId = Some cid,
              clientId = (if falsy cl then None else cl),
              status = SENT, deliveredTo = [], readBy = []\<rparr>\<rparr>"
    using sendMessageFound_row by metis
  then show ?thesis
  proof cases
    case same
    then show ?thesis using assms by simp
  next
    case row
    then show ?thesis
      using assms by (auto simp: findUnique_createRow split: if_splits)
  qed
qed

text \<open>markRead never lowers a status; markDelivered never lowers one that is not READ.\<close>

lemma markRead_status_mono:
  assumes "findUnique (messages s) k = Some m"
    and "findUnique (messages (fst (markRead s u mid body))) k = Some m'"
  shows "statusRank (status m) \<le> statusRank (status m')"
  using markRead_row [OF assms]
  by (cases "status m") (auto split: option.splits)

lemma markDelivered_status_mono_below_READ:
  assumes "findUnique (messages s) k = Some m" and "status m \<noteq> READ"
    and "findUnique (messages (fst (markDelivered s u mid body))) k = Some m'"
  shows "statusRank (status m) \<le> statusRank (status m')"
  using markDelivered_row [OF assms(1,3)] assms(2)
  by (cases "status m") (auto split: option.splits)

lemma markDelivered_repeat:
  assumes "uid \<noteq> []" and "orDefault body' uid' = orDefault body uid"
  shows "fst (markDelivered (fst (markDelivered s (Some uid) mid body)) (Some uid') mid body')
           = fst (markDelivered s (Some uid) mid body)
         \<and> fst (snd (markDelivered (fst (markDelivered s (Some uid) mid body)) (Some uid') mid body')) = []"
proof (cases "findUnique (messages s) mid")
  case None
  then have "fst (markDelivered s (Some uid) mid body) = s"
    by (simp add: markDelivered_not_found)
  then show ?thesis using None by (simp add: markDelivered_not_found)
next
  case (Some m)
  let ?t = "orDefault body uid"
  note first = markDelivered_found [OF assms(1) Some, of body]
  show ?thesis
  proof (cases "uid' = []")
    case True
    then show ?thesis by (simp add: markDelivered_def)
  next
    case False
    consider (already) "?t \<in> set (deliveredTo m)"
      | (nouser) "?t \<notin> set (deliveredTo m)" "findUnique (users s) ?t = None"
      | (new) "?t \<notin> set (deliveredTo m)" "findUnique (users s) ?t \<noteq> None"
      by blast
    then show ?thesis
    proof cases
      case already
      then have "markDelivered s (Some uid) mid body = (s, [], (200, AlreadyBody ''Message already marked as delivered'' mid))"
        using first by (simp add: markDeliveredFound_already)
      moreover have "markDelivered s (Some uid') mid body' = (s, [], (200, AlreadyBody ''Message already marked as delivered'' mid))"
        using already assms(2) markDelivered_found [OF False Some, of body']
        by (simp add: markDeliveredFound_already)
      ultimately show ?thesis by simp
    next
      case nouser
      then have "markDelivered s (Some uid) mid body = (s, [], (500, ErrorBody ''Failed to mark message as delivered''))"
        using first by (simp add: markDeliveredFound_no_user)
      moreover have "markDelivered s (Some uid') mid body' = (s, [], (500, ErrorBody ''Failed to mark message as delivered''))"
        using nouser assms(2) markDelivered_found [OF False Some, of body']
        by (simp add: markDeliveredFound_no_user)
      ultimately show ?thesis by simp
    next
      case new
      obtain m1 where s1: "fst (markDelivered s (Some uid) mid body) = putMessage s mid m1"
        and m1: "?t \<in> set (deliveredTo m1)"
        using first markDeliveredFound_new [OF new, of mid] by simp
      have "findUnique (messages (putMessage s mid m1)) mid = Some m1" by simp
      from markDelivered_found [OF False this, of body']
      have "markDelivered (putMessage s mid m1) (Some uid') mid body'
              = (putMessage s mid m1, [], (200, AlreadyBody ''Message already marked as delivered'' mid))"
        using m1 assms(2) by (simp add: markDeliveredFound_already)
      then show ?thesis using s1 by simp
    qed
  qed
qed

lemma markRead_repeat:
  assumes "uid \<noteq> []" and "orDefault body' uid' = orDefault body uid"
  shows "fst (markRead (fst (markRead s (Some uid) mid body)) (Some uid') mid body')
           = fst (markRead s (Some uid) mid body)
         \<and> fst (snd (markRead (fst (markRead s (Some uid) mid body)) (Some uid') mid body')) = []"
proof (cases "findUnique (messages s) mid")
  case None
  then have "fst (markRead s (Some uid) mid body) = s"
    by (simp add: markRead_not_found)
  then show ?thesis using None by (simp add: markRead_not_found)
next
  case (Some m)
  let ?t = "orDefault body uid"
  note first = markRead_found [OF assms(1) Some, of body]
  show ?thesis
  proof (cases "uid' = []")
    case True
    then show ?thesis by (simp add: markRead_def)
  next
    case False
    consider (already) "?t \<in> set (readBy m)"
      | (nouser) "?t \<notin> set (readBy m)" "findUnique (users s) ?t = None"
      | (new) "?t \<notin> set (readBy m)" "findUnique (users s) ?t \<noteq> None"
      by blast
    then show ?thesis
    proof cases
      case already
      then have "markRead s (Some uid) mid body = (s, [], (200, AlreadyBody ''Message already marked as read'' mid))"
        using first by (simp add: markReadFound_already)
      moreover have "markRead s (Some uid') mid body' = (s, [], (200, AlreadyBody ''Message already marked as read'' mid))"
        using already assms(2) markRead_found [OF False Some, of body']
        by (simp add: markReadFound_already)
      ultimately show ?thesis by simp
    next
      case nouser
      then have "markRead s (Some uid) mid body = (s, [], (500, ErrorBody ''Failed to mark message as read''))"
        using first by (simp add: markReadFound_no_user)
      moreover have "markRead s (Some uid') mid body' = (s, [], (500, ErrorBody ''Failed to mark message as read''))"
        using nouser assms(2) markRead_found [OF False Some, of body']
        by (simp add: markReadFound_no_user)
      ultimately show ?thesis by simp
    next
      case new
      obtain m1 where s1: "fst (markRead s (Some uid) mid body) = putMessage s mid m1"
        and m1: "?t \<in> set (readBy m1)"
        using first markReadFound_new [OF new, of mid] by simp
      have "findUnique (messages (putMessage s mid m1)) mid = Some m1" by simp
      from markRead_found [OF False this, of body']
      have "markRead (putMessage s mid m1) (Some uid') mid body'
              = (putMessage s mid m1, [], (200, AlreadyBody ''Message already marked as read'' mid))"
        using m1 assms(2) by (simp add: markReadFound_already)
      then show ?thesis using s1 by simp
    qed
  qed
qed

section \<open>Status order under acknowledgments\<close>

text \<open>
  C1. The claim: under every sequence of markDelivered and markRead the status of a
  message never goes down in SENT < DELIVERED < READ, and markDelivered never turns READ
  back into DELIVERED. The code of markDelivered has no such guard: in the sample store,
  after bob has read \<open>m1\<close> (status READ), a delivery acknowledgment by the sender alice
  brings \<open>deliveredTo\<close> to two entries, at least the threshold 1, and the status is
  written as DELIVERED.
\<close>

theorem markDelivered_downgrades_READ:
  "map_option status (findUnique (messages readStore) ''m1'') = Some READ \<and>
   map_option status
     (findUnique (messages (fst (markDelivered readStore (Some ''alice'') ''m1'' None))) ''m1'')
     = Some DELIVERED"
  by code_simp

section \<open>Promotion once every recipient has acknowledged\<close>




section \<open>Repeated acknowledgments\<close>

text \<open>
  C4. markDelivered and markRead are idempotent. After any authenticated call for a
  message, a second call of the same operation whose target user is the same (by the same
  or by another caller) returns the store as the first call left it, so
  \<open>deliveredTo\<close>, \<open>readBy\<close> and \<open>status\<close> are unchanged and hold no
  duplicate, and it emits no event at all, hence no second \<^verbatim>\<open>message:status\<close>.
\<close>

theorem repeated_ack_is_noop:
  assumes "uid \<noteq> []" and "orDefault body' uid' = orDefault body uid"
  shows "fst (markDelivered (fst (markDelivered s (Some uid) mid body)) (Some uid') mid body')
           = fst (markDelivered s (Some uid) mid body)
       \<and> fst (snd (markDelivered (fst (markDelivered s (Some uid) mid body)) (Some uid') mid body')) = []
       \<and> fst (markRead (fst (markRead s (Some uid) mid body)) (Some uid') mid body')
           = fst (markRead s (Some uid) mid body)
       \<and> fst (snd (markRead (fst (markRead s (Some uid) mid body)) (Some uid') mid body')) = []"
  using markDelivered_repeat [OF assms] markRead_repeat [OF assms] by simp

text \<open>
  alice acknowledges \<open>m1\<close> in the name of bob, then bob acknowledges himself: the
  second call changes nothing and emits nothing, and bob is in the relation once.
\<close>

theorem repeated_ack_is_noop_witness:
  "map_option deliveredTo
     (findUnique (messages (fst (markDelivered (fst (markDelivered demoStore (Some ''alice'') ''m1'' (Some ''bob'')))
                                   (Some ''bob'') ''m1'' None))) ''m1'') = Some [''bob'']
   \<and> fst (snd (markDelivered (fst (markDelivered demoStore (Some ''alice'') ''m1'' (Some ''bob'')))
                 (Some ''bob'') ''m1'' None)) = []
   \<and> map_option readBy
     (findUnique (messages (fst (markRead (fst (markRead demoStore (Some ''alice'') ''m1'' (Some ''bob'')))
                                   (Some ''bob'') ''m1'' None))) ''m1'') = Some [''bob'']
   \<and> fst (snd (markRead (fst (markRead demoStore (Some ''alice'') ''m1'' (Some ''bob'')))
                 (Some ''bob'') ''m1'' None)) = []"
proof -
  have 1: "''alice'' \<noteq> []" by simp
  have 2: "orDefault None ''bob'' = orDefault (Some ''bob'') ''alice''" by code_simp
  have d: "map_option deliveredTo
     (findUnique (messages (fst (markDelivered demoStore (Some ''alice'') ''m1'' (Some ''bob'')))) ''m1'')
       = Some [''bob'']" by code_simp
  have r: "map_option readBy
     (findUnique (messages (fst (markRead demoStore (Some ''alice'') ''m1'' (Some ''bob'')))) ''m1'')
       = Some [''bob'']" by code_simp
  from repeated_ack_is_noop [OF 1 2, of demoStore "''m1''"] d r
  show ?thesis by simp
qed

section \<open>Reading implies having received\<close>

text \<open>
  C5. When markRead answers with success for a message whose readers were all recorded
  as receivers (true of every message that sendMessage creates, see
  \<open>sendMessage_new_row\<close>, and kept by markDelivered and markRead, see
  \<open>markRead_keeps_readBy_subset\<close> and \<open>markDelivered_keeps_readBy_subset\<close>),
  the target user is in \<open>deliveredTo\<close> and in
  \<open>readBy\<close> afterwards. When the user was in neither relation, the one update of the
  call appends the user to both, without any earlier markDelivered.
\<close>

theorem markRead_implies_delivered:
  assumes "fst (snd (snd (markRead s (Some uid) mid body))) = 200"
    and "findUnique (messages s) mid = Some m"
    and "set (readBy m) \<subseteq> set (deliveredTo m)"
  shows "\<exists>m'. findUnique (messages (fst (markRead s (Some uid) mid body))) mid = Some m'
           \<and> orDefault body uid \<in> set (deliveredTo m')
           \<and> orDefault body uid \<in> set (readBy m')
           \<and> (orDefault body uid \<notin> set (readBy m) \<and> orDefault body uid \<notin> set (deliveredTo m) \<longrightarrow>
                 readBy m' = readBy m @ [orDefault body uid]
               \<and> deliveredTo m' = deliveredTo m @ [orDefault body uid])"
proof -
  let ?t = "orDefault body uid"
  have uid: "uid \<noteq> []"
    using assms(1) by (auto simp: markRead_def split: if_splits)
  note found = markRead_found [OF uid assms(2), of body]
  show ?thesis
  proof (cases "?t \<in> set (readBy m)")
    case True
    then have "fst (markRead s (Some uid) mid body) = s"
      using found by (simp add: markReadFound_already)
    then show ?thesis
      using True assms(2,3) by auto
  next
    case False
    have user: "findUnique (users s) ?t \<noteq> None"
    proof
      assume "findUnique (users s) ?t = None"
      then have "markRead s (Some uid) mid body
                   = (s, [], (500, ErrorBody ''Failed to mark message as read''))"
        using found False by (simp add: markReadFound_no_user)
      then show False using assms(1) by simp
    qed
    obtain st where "fst (markRead s (Some uid) mid body)
        = putMessage s mid (m\<lparr>readBy := readBy m @ [?t],
            deliveredTo := connectUser (deliveredTo m) ?t, status := st\<rparr>)"
      using found by (simp add: markReadFound_new [OF False user])
    then show ?thesis by (simp add: connectUser_new)
  qed
qed

text \<open>bob reads \<open>m1\<close> without having acknowledged its delivery.\<close>

theorem markRead_implies_delivered_witness:
  "map_option deliveredTo (findUnique (messages (fst (markRead demoStore (Some ''bob'') ''m1'' None))) ''m1'')
     = Some [''bob'']
   \<and> map_option readBy (findUnique (messages (fst (markRead demoStore (Some ''bob'') ''m1'' None))) ''m1'')
     = Some [''bob'']"
proof -
  have 1: "fst (snd (snd (markRead demoStore (Some ''bob'') ''m1'' None))) = 200" by code_simp
  have 2: "findUnique (messages demoStore) ''m1'' = Some demoMessage" by code_simp
  have 3: "set (readBy demoMessage) \<subseteq> set (deliveredTo demoMessage)" by code_simp
  have 4: "orDefault None ''bob'' = ''bob''" by code_simp
  have 5: "readBy demoMessage = []" "deliveredTo demoMessage = []" by code_simp+
  from markRead_implies_delivered [OF 1 2 3]
  show ?thesis unfolding 4 5 by auto
qed

section \<open>Whom an acknowledgment is recorded for\<close>

text \<open>
  C10, as the code has it. The acknowledgment is recorded for
  \<^verbatim>\<open>toUserId || userId\<close> (for markRead the body's field is \<^verbatim>\<open>userId\<close>): the
  user id of the body when that field is present and not empty, the authenticated caller
  otherwise. The target must be a row of \<^verbatim>\<open>users\<close> (the relation's foreign key).
  Nothing else is asked of it: for every authenticated caller and every existing target,
  member of the conversation or not, sender or not, the caller or not, both handlers
  answer 200 and the target is connected to their relation (appended unless it is there).
\<close>

theorem ack_target_is_not_checked:
  assumes "uid \<noteq> []" and "findUnique (messages s) mid = Some m"
    and "findUnique (users s) (orDefault body uid) \<noteq> None"
  shows "fst (snd (snd (markDelivered s (Some uid) mid body))) = 200
       \<and> map_option deliveredTo (findUnique (messages (fst (markDelivered s (Some uid) mid body))) mid)
           = Some (connectUser (deliveredTo m) (orDefault body uid))
       \<and> fst (snd (snd (markRead s (Some uid) mid body))) = 200
       \<and> map_option readBy (findUnique (messages (fst (markRead s (Some uid) mid body))) mid)
           = Some (connectUser (readBy m) (orDefault body uid))"
proof -
  let ?t = "orDefault body uid"
  note d = markDelivered_found [OF assms(1,2), of body]
  note r = markRead_found [OF assms(1,2), of body]
  have 1: "fst (snd (snd (markDelivered s (Some uid) mid body))) = 200
       \<and> map_option deliveredTo (findUnique (messages (fst (markDelivered s (Some uid) mid body))) mid)
           = Some (connectUser (deliveredTo m) ?t)"
  proof (cases "?t \<in> set (deliveredTo m)")
    case True
    then show ?thesis
      using d assms(2) by (simp add: markDeliveredFound_already connectUser_def)
  next
    case False
    then show ?thesis
      using d by (simp add: markDeliveredFound_new [OF False assms(3)] connectUser_def)
  qed
  have 2: "fst (snd (snd (markRead s (Some uid) mid body))) = 200
       \<and> map_option readBy (findUnique (messages (fst (markRead s (Some uid) mid body))) mid)
           = Some (connectUser (readBy m) ?t)"
  proof (cases "?t \<in> set (readBy m)")
    case True
    then show ?thesis
      using r assms(2) by (simp add: markReadFound_already connectUser_def)
  next
    case False
    then show ?thesis
      using r by (simp add: markReadFound_new [OF False assms(3)] connectUser_def)
  qed
  from 1 2 show ?thesis by simp
qed

text \<open>
  bob records acknowledgments of \<open>m1\<close> in the name of carol, who is not a member of
  the conversation of \<open>m1\<close>.
\<close>

theorem ack_target_is_not_checked_witness:
  "''carol'' \<notin> set [''alice'', ''bob'']
   \<and> map_option deliveredTo
       (findUnique (messages (fst (markDelivered demoStore (Some ''bob'') ''m1'' (Some ''carol'')))) ''m1'')
       = Some [''carol'']
   \<and> map_option readBy
       (findUnique (messages (fst (markRead demoStore (Some ''bob'') ''m1'' (Some ''carol'')))) ''m1'')
       = Some [''carol'']"
proof -
  have 1: "''bob'' \<noteq> []" by simp
  have 2: "findUnique (messages demoStore) ''m1'' = Some demoMessage" by code_simp
  have 3: "findUnique (users demoStore) (orDefault (Some ''carol'') ''bob'') \<noteq> None" by code_simp
  have 4: "connectUser (deliveredTo demoMessage) (orDefault (Some ''carol'') ''bob'') = [''carol'']"
    by code_simp
  have 5: "connectUser (readBy demoMessage) (orDefault (Some ''carol'') ''bob'') = [''carol'']"
    by code_simp
  from ack_target_is_not_checked [OF 1 2 3]
  show ?thesis unfolding 4 5 by simp
qed

text \<open>
  C10 as stated fails in two places. A \<^verbatim>\<open>toUserId\<close> that is present but empty is not
  the recorded user: the acknowledgment of bob's request is recorded for bob. And not
  every user id can be acknowledged for: for an id that is no user the handler answers 500
  and records nothing.
\<close>

theorem ack_target_counterexample:
  "map_option deliveredTo
     (findUnique (messages (fst (markDelivered demoStore (Some ''bob'') ''m1'' (Some [])))) ''m1'')
     = Some [''bob'']
   \<and> markDelivered demoStore (Some ''bob'') ''m1'' (Some ''ghost'')
     = (demoStore, [], (500, ErrorBody ''Failed to mark message as delivered''))"
  by code_simp

section \<open>Recipients of a message in a conversation of the sender alone\<close>

text \<open>
  C9, as the code has it. In a conversation whose only member is the sender, a valid
  send that the store accepts stores the message with the sender as \<open>receiverId\<close>
  (the fallback of lines 89 to 92), while the list the delivery loop runs over
  (\<open>recipientIds\<close>, all members but the sender) is empty: no \<^verbatim>\<open>message:new\<close> event
  is emitted, and the answer is 201.
\<close>

theorem solo_conversation_send:
  assumes "uid \<noteq> []" and "cid \<noteq> []"
    and "findUnique (conversations s) cid = Some conv" and "members conv = [uid]"
    and "\<not> (falsy text' \<and> noAttachments attachments)"
    and "\<not> list_ex badAttachment (case attachments of None \<Rightarrow> [] | Some as \<Rightarrow> as)"
    and "findUnique (users s) uid \<noteq> None" and "findUnique (messages s) newId = None"
    and "\<not> clientIdTaken s (if falsy clientId' then None else clientId')"
  shows "resolveReceiverId conv uid = uid \<and> recipientIds conv uid = []
       \<and> sendMessage s (Some uid) (Some cid) clientId' text' attachments newId =
           (s\<lparr>messages := createRow (messages s) newId
                 \<lparr>senderId = uid, receiverId = uid, conversationId = Some cid,
                  clientId = (if falsy clientId' then None else clientId'),
                  status = SENT, deliveredTo = [], readBy = []\<rparr>\<rparr>,
            [], (201, SentBody newId uid uid SENT))"
proof -
  have r: "resolveReceiverId conv uid = uid"
    using assms(1,4) by (simp add: resolveReceiverId_def orDefault_def)
  have i: "recipientIds conv uid = []"
    using assms(4) by (simp add: recipientIds_def)
  have "sendMessage s (Some uid) (Some cid) clientId' text' attachments newId
      = sendMessageFound s uid cid clientId' attachments newId conv"
    using assms(1,2,3,5) by (auto simp: sendMessage_def)
  moreover have "sendMessageFound s uid cid clientId' attachments newId conv =
           (s\<lparr>messages := createRow (messages s) newId
                 \<lparr>senderId = uid, receiverId = uid, conversationId = Some cid,
                  clientId = (if falsy clientId' then None else clientId'),
                  status = SENT, deliveredTo = [], readBy = []\<rparr>\<rparr>,
            [], (201, SentBody newId uid uid SENT))"
    using assms(4,6,7,8,9) r i
    by (simp add: sendMessageFound_def createMessageFails_def Let_def)
  ultimately show ?thesis using r i by simp
qed

text \<open>alice sends "hi" in the conversation \<open>solo\<close>.\<close>

theorem solo_conversation_send_witness:
  "resolveReceiverId demoSolo ''alice'' = ''alice'' \<and> recipientIds demoSolo ''alice'' = []
   \<and> sendMessage demoStore (Some ''alice'') (Some ''solo'') None (Some ''hi'') None ''m9'' =
           (demoStore\<lparr>messages := createRow (messages demoStore) ''m9''
                 \<lparr>senderId = ''alice'', receiverId = ''alice'', conversationId = Some ''solo'',
                  clientId = (if falsy None then None else None),
                  status = SENT, deliveredTo = [], readBy = []\<rparr>\<rparr>,
            [], (201, SentBody ''m9'' ''alice'' ''alice'' SENT))"
proof -
  have 1: "''alice'' \<noteq> []" by simp
  have 2: "''solo'' \<noteq> []" by simp
  have 3: "findUnique (conversations demoStore) ''solo'' = Some demoSolo" by code_simp
  have 4: "members demoSolo = [''alice'']" by code_simp
  have 5: "\<not> (falsy (Some ''hi'') \<and> noAttachments None)" by code_simp
  have 6: "\<not> list_ex badAttachment (case None of None \<Rightarrow> [] | Some as \<Rightarrow> as)" by simp
  have 7: "findUnique (users demoStore) ''alice'' \<noteq> None" by code_simp
  have 8: "findUnique (messages demoStore) ''m9'' = None" by code_simp
  have 9: "\<not> clientIdTaken demoStore (if falsy None then None else None)" by code_simp
  show ?thesis
    by (rule solo_conversation_send [OF 1 2 3 4 5 6 7 8 9])
qed

text \<open>
  C9 as stated fails: for the conversation of alice alone the delivery code receives
  the empty list, not the one-element list of the sender, and sends nothing.
\<close>

theorem solo_conversation_counterexample:
  "members demoSolo = [''alice'']
   \<and> recipientIds demoSolo ''alice'' = []
   \<and> fst (snd (sendMessage demoStore (Some ''alice'') (Some ''solo'') None (Some ''hi'') None ''m9'')) = []
   \<and> fst (snd (snd (sendMessage demoStore (Some ''alice'') (Some ''solo'') None (Some ''hi'') None ''m9''))) = 201"
  by code_simp

section \<open>Outcomes of the call handlers\<close>

text \<open>Callers whose ids agree on the first eight characters share their room ids at any clock reading.\<close>

lemma makeRoomId_same_prefix:
  "take 8 caller = take 8 caller' \<Longrightarrow> makeRoomId caller now = makeRoomId caller' now"
  by (simp add: makeRoomId_def)

lemma initiateCall_success:
  assumes "receiver \<noteq> []" and "ty \<noteq> []" and "isCallType ty"
    and "findUnique (calls s) newId = None" and "apiKey lk \<noteq> []" and "apiSecret lk \<noteq> []"
  shows "initiateCall isCallType lk s caller (Some receiver) (Some ty) conv now newId =
     (s\<lparr>calls := createRow (calls s) newId
          \<lparr>callerId = caller, callReceiverId = receiver, callType = ty,
           callConversationId = conv, roomId = makeRoomId caller now,
           callStatus = INITIATED, startTime = None, endTime = None, duration = None\<rparr>\<rparr>,
      [(receiver, ''call:incoming'',
        CallIncomingPayload newId
          (map_option (\<lambda>u. caller) (findUnique (users s) caller))
          (map_option name (findUnique (users s) caller))
          ty (makeRoomId caller now) conv)],
      (201, InitiatedBody newId
          \<lparr>callerId = caller, callReceiverId = receiver, callType = ty,
           callConversationId = conv, roomId = makeRoomId caller now,
           callStatus = INITIATED, startTime = None, endTime = None, duration = None\<rparr>
          (toJwt lk (makeRoomId caller now) caller (map_option name (findUnique (users s) caller)))))"
  using assms
  by (simp add: initiateCall_def initiateCallValid_def generateToken_def Let_def)

lemma endCall_applied:
  assumes "findUnique (calls s) callId = Some call"
    and "userId = callerId call \<or> userId = callReceiverId call"
    and "parseCallStatus (orDefault status' ''ENDED'') = Some st"
  shows "endCall s userId (Some callId) status' now =
     (s\<lparr>calls := updateRow (calls s) callId
          (call\<lparr>callStatus := st, endTime := Some now,
                duration := (case startTime call of
                               None \<Rightarrow> None
                             | Some started \<Rightarrow> Some (callDuration call now))\<rparr>)\<rparr>,
      [(if callerId call = userId then callReceiverId call else callerId call, ''call:ended'',
        CallEndedPayload callId st (callDuration call now))],
      (200, SuccessBody))"
  using assms by (auto simp: endCall_def Let_def)

lemma endCall_invalid_status:
  assumes "findUnique (calls s) callId = Some call"
    and "userId = callerId call \<or> userId = callReceiverId call"
    and "parseCallStatus (orDefault status' ''ENDED'') = None"
  shows "endCall s userId (Some callId) status' now = (s, [], (500, ErrorBody ''Failed to end call''))"
  using assms by (auto simp: endCall_def Let_def)

lemma reportRinging_applied:
  assumes "findUnique (calls s) callId = Some call" and "callReceiverId call = userId"
  shows "reportRinging s userId (Some callId) =
     (s\<lparr>calls := updateRow (calls s) callId (call\<lparr>callStatus := RINGING\<rparr>)\<rparr>,
      [(callerId call, ''call:ringing'', CallRingingPayload callId)],
      (200, SuccessBody))"
  using assms by (simp add: reportRinging_def)

lemma acceptCall_applied:
  assumes "findUnique (calls s) callId = Some call" and "callReceiverId call = userId"
  shows "acceptCall lk s userId (Some callId) now =
     (case generateToken lk (roomId call) userId (map_option name (findUnique (users s) userId)) of
        None \<Rightarrow>
          (s\<lparr>calls := updateRow (calls s) callId (call\<lparr>callStatus := ACCEPTED, startTime := Some now\<rparr>)\<rparr>,
           [], (500, ErrorBody ''Failed to accept call''))
      | Some token \<Rightarrow>
          (s\<lparr>calls := updateRow (calls s) callId (call\<lparr>callStatus := ACCEPTED, startTime := Some now\<rparr>)\<rparr>,
           [(callerId call, ''call:accepted'', CallAcceptedPayload callId userId)],
           (200, TokenBody token)))"
  using assms by (simp add: acceptCall_def Let_def)

lemma acceptCall_refused:
  assumes "findUnique (calls s) callId = None
           \<or> (\<exists>call. findUnique (calls s) callId = Some call \<and> callReceiverId call \<noteq> userId)"
  shows "acceptCall lk s userId (Some callId) now =
           (s, [], (404, ErrorBody ''Call not found or unauthorized''))"
  using assms by (auto simp: acceptCall_def)

lemma parse_ENDED [simp]: "parseCallStatus ''ENDED'' = Some ENDED"
  by (simp add: parseCallStatus_def)

lemma parseCallStatus_name: "parseCallStatus (callStatusName st) = Some st"
  by (cases st) (simp_all add: parseCallStatus_def)

lemma callStatusName_not_empty: "callStatusName st \<noteq> []"
  by (cases st) simp_all

lemma requested_status_parses:
  assumes "status' = Some (callStatusName st) \<or> (falsy status' \<and> st = ENDED)"
  shows "parseCallStatus (orDefault status' ''ENDED'') = Some st"
  using assms parseCallStatus_name [of st] callStatusName_not_empty [of st]
  by (auto simp: orDefault_def falsy_def split: option.splits)

lemma ringStore_eq: "ringStore = demoStore\<lparr>calls := [(''k1'', demoCall)]\<rparr>"
proof -
  have "findUnique (calls demoStore) ''k1'' = None"
    by (simp add: demoStore_def findUnique_def)
  then show ?thesis
    by (simp add: ringStore_def initiateCall_success demoCallType_def demoLiveKit_def
        demoCall_def createRow_def demoStore_def)
qed

lemma ringStore_call: "findUnique (calls ringStore) ''k1'' = Some demoCall"
  by (simp add: ringStore_eq findUnique_def)

lemma endedStore_call:
  "findUnique (calls endedStore) ''k1''
     = Some (demoCall\<lparr>callStatus := ENDED, endTime := Some 1730000005000, duration := None\<rparr>)"
proof -
  have "parseCallStatus (orDefault None ''ENDED'') = Some ENDED"
    by (simp add: orDefault_def)
  from endCall_applied [OF ringStore_call _ this, of "''alice''" 1730000005000]
  show ?thesis
    by (simp add: endedStore_def demoCall_def)
qed

lemma endedStore_call': "findUnique (calls endedStore) ''k1'' = Some endedCall"
  by (simp add: endedStore_call endedCall_def)

lemma endedCall_fields:
  "callerId endedCall = ''alice''" "callReceiverId endedCall = ''bob''"
  "callStatus endedCall = ENDED" "startTime endedCall = None"
  by (simp_all add: endedCall_def demoCall_def)

lemma demoCall_fields:
  "callerId demoCall = ''alice''" "callReceiverId demoCall = ''bob''"
  "callStatus demoCall = INITIATED" "startTime demoCall = None"
  by (simp_all add: demoCall_def)

lemma demoLiveKit_token:
  "generateToken demoLiveKit room identity displayName = Some (''jwt/'' @ room @ ''/'' @ identity)"
  by (simp add: generateToken_def demoLiveKit_def)

section \<open>Terminal call states\<close>

text \<open>
  C2, as the code has it. No handler reads the current status of the call. For a call
  in a terminal state, an \<open>end\<close> by the caller or by the receiver whose requested status
  is one of REJECTED, MISSED, BUSY, ENDED, or is absent or empty, is applied again
  (answer 200, the status is overwritten by the requested one, ENDED when none is given),
  \<open>reportRinging\<close> by the receiver is answered 200 and sets RINGING, and \<open>accept\<close> by
  the receiver sets ACCEPTED: a terminal state is left again.
\<close>

theorem terminal_call_is_not_guarded:
  assumes "findUnique (calls s) callId = Some call" and "terminal (callStatus call)"
    and "terminal st"
    and "status' = Some (callStatusName st) \<or> (falsy status' \<and> st = ENDED)"
  shows "snd (snd (endCall s (callerId call) (Some callId) status' now)) = (200, SuccessBody)
       \<and> map_option callStatus
           (findUnique (calls (fst (endCall s (callerId call) (Some callId) status' now))) callId) = Some st
       \<and> snd (snd (endCall s (callReceiverId call) (Some callId) status' now)) = (200, SuccessBody)
       \<and> map_option callStatus
           (findUnique (calls (fst (endCall s (callReceiverId call) (Some callId) status' now))) callId) = Some st
       \<and> snd (snd (reportRinging s (callReceiverId call) (Some callId))) = (200, SuccessBody)
       \<and> map_option callStatus
           (findUnique (calls (fst (reportRinging s (callReceiverId call) (Some callId)))) callId) = Some RINGING
       \<and> map_option callStatus
           (findUnique (calls (fst (acceptCall lk s (callReceiverId call) (Some callId) now))) callId) = Some ACCEPTED"
proof -
  have p: "parseCallStatus (orDefault status' ''ENDED'') = Some st"
    by (rule requested_status_parses [OF assms(4)])
  have 1: "endCall s (callerId call) (Some callId) status' now = 
     (s\<lparr>calls := updateRow (calls s) callId
          (call\<lparr>callStatus := st, endTime := Some now,
                duration := (case startTime call of
                               None \<Rightarrow> None
                             | Some started \<Rightarrow> Some (callDuration call now))\<rparr>)\<rparr>,
      [(if callerId call = callerId call then callReceiverId call else callerId call, ''call:ended'',
        CallEndedPayload callId st (callDuration call now))],
      (200, SuccessBody))"
    by (rule endCall_applied [OF assms(1) _ p]) simp
  have 2: "endCall s (callReceiverId call) (Some callId) status' now = 
     (s\<lparr>calls := updateRow (calls s) callId
          (call\<lparr>callStatus := st, endTime := Some now,
                duration := (case startTime call of
                               None \<Rightarrow> None
                             | Some started \<Rightarrow> Some (callDuration call now))\<rparr>)\<rparr>,
      [(if callerId call = callReceiverId call then callReceiverId call else callerId call, ''call:ended'',
        CallEndedPayload callId st (callDuration call now))],
      (200, SuccessBody))"
    by (rule endCall_applied [OF assms(1) _ p]) simp
  note 3 = reportRinging_applied [OF assms(1) refl]
  note 4 = acceptCall_applied [OF assms(1) refl, of lk now]
  show ?thesis
    unfolding 1 2 3 4 by (simp split: option.splits)
qed

text \<open>The ended call \<open>k1\<close>: bob ends it again as REJECTED; bob reports ringing.\<close>

theorem terminal_call_is_not_guarded_witness:
  "terminal (callStatus endedCall) \<and> terminal REJECTED
   \<and> snd (snd (endCall endedStore ''bob'' (Some ''k1'') (Some ''REJECTED'') 1730000009000)) = (200, SuccessBody)
   \<and> map_option callStatus
       (findUnique (calls (fst (endCall endedStore ''bob'' (Some ''k1'') (Some ''REJECTED'') 1730000009000))) ''k1'')
       = Some REJECTED
   \<and> map_option callStatus (findUnique (calls (fst (reportRinging endedStore ''bob'' (Some ''k1'')))) ''k1'')
       = Some RINGING"
proof -
  have 1: "terminal (callStatus endedCall)" by (simp add: endedCall_fields)
  have 2: "terminal REJECTED" by simp
  have 3: "Some ''REJECTED'' = Some (callStatusName REJECTED) \<or> (falsy (Some ''REJECTED'') \<and> REJECTED = ENDED)"
    by simp
  from terminal_call_is_not_guarded [OF endedStore_call' 1 2 3, of 1730000009000]
  show ?thesis using 1 by (simp add: endedCall_fields)
qed

text \<open>
  C2 as stated fails: on the call that alice has ended, a later \<open>end\<close> is not
  rejected as a conflict but answered 200 and applied (the status becomes MISSED, the
  other party is notified), and \<open>reportRinging\<close> moves the call from ENDED to RINGING.
\<close>

theorem terminal_call_counterexample:
  "map_option callStatus (findUnique (calls endedStore) ''k1'') = Some ENDED
   \<and> endCall endedStore ''alice'' (Some ''k1'') (Some ''MISSED'') 1730000009000
       = (endedStore\<lparr>calls := updateRow (calls endedStore) ''k1''
            (endedCall\<lparr>callStatus := MISSED, endTime := Some 1730000009000, duration := None\<rparr>)\<rparr>,
          [(''bob'', ''call:ended'', CallEndedPayload ''k1'' MISSED 0)],
          (200, SuccessBody))
   \<and> reportRinging endedStore ''bob'' (Some ''k1'')
       = (endedStore\<lparr>calls := updateRow (calls endedStore) ''k1'' (endedCall\<lparr>callStatus := RINGING\<rparr>)\<rparr>,
          [(''alice'', ''call:ringing'', CallRingingPayload ''k1'')],
          (200, SuccessBody))"
proof -
  have p: "parseCallStatus (orDefault (Some ''MISSED'') ''ENDED'') = Some MISSED"
    by (simp add: parseCallStatus_def orDefault_def)
  have a: "''alice'' = callerId endedCall \<or> ''alice'' = callReceiverId endedCall"
    by (simp add: endedCall_fields)
  show ?thesis
    using endCall_applied [OF endedStore_call' a p, of 1730000009000]
      reportRinging_applied [OF endedStore_call', of "''bob''"]
    by (simp add: endedStore_call' endedCall_fields callDuration_def)
qed

section \<open>Accepting a call\<close>

text \<open>
  C6, as the code has it. \<open>accept\<close> fails with 404 and leaves the store as it is when
  the call does not exist or the acting user is not its receiver. When the call exists,
  the actor is the receiver and the token service issues a credential, it succeeds
  whatever the current status of the call is: the status becomes ACCEPTED, the start time
  is recorded, the caller is notified by one \<^verbatim>\<open>call:accepted\<close>, and the answer
  carries the credential.
\<close>

theorem acceptCall_outcomes:
  "(findUnique (calls s) callId = None \<longrightarrow>
      acceptCall lk s userId (Some callId) now = (s, [], (404, ErrorBody ''Call not found or unauthorized'')))
 \<and> (findUnique (calls s) callId = Some call \<and> callReceiverId call \<noteq> userId \<longrightarrow>
      acceptCall lk s userId (Some callId) now = (s, [], (404, ErrorBody ''Call not found or unauthorized'')))
 \<and> (findUnique (calls s) callId = Some call \<and> callReceiverId call = userId
      \<and> generateToken lk (roomId call) userId (map_option name (findUnique (users s) userId)) = Some token \<longrightarrow>
      acceptCall lk s userId (Some callId) now =
        (s\<lparr>calls := updateRow (calls s) callId (call\<lparr>callStatus := ACCEPTED, startTime := Some now\<rparr>)\<rparr>,
         [(callerId call, ''call:accepted'', CallAcceptedPayload callId userId)],
         (200, TokenBody token)))"
  by (auto simp: acceptCall_refused acceptCall_applied)

text \<open>
  On the call \<open>k1\<close> of alice to bob: an unknown call id, carol as actor, and bob's
  accept.
\<close>

theorem acceptCall_outcomes_witness:
  "acceptCall demoLiveKit ringStore ''bob'' (Some ''nocall'') 1730000002000
     = (ringStore, [], (404, ErrorBody ''Call not found or unauthorized''))
   \<and> acceptCall demoLiveKit ringStore ''carol'' (Some ''k1'') 1730000002000
     = (ringStore, [], (404, ErrorBody ''Call not found or unauthorized''))
   \<and> acceptCall demoLiveKit ringStore ''bob'' (Some ''k1'') 1730000002000
     = (ringStore\<lparr>calls := updateRow (calls ringStore) ''k1''
           (demoCall\<lparr>callStatus := ACCEPTED, startTime := Some 1730000002000\<rparr>)\<rparr>,
        [(''alice'', ''call:accepted'', CallAcceptedPayload ''k1'' ''bob'')],
        (200, TokenBody (''jwt/'' @ roomId demoCall @ ''/bob'')))"
proof -
  have 1: "findUnique (calls ringStore) ''nocall'' = None"
    by (simp add: ringStore_eq findUnique_def)
  have 2: "findUnique (calls ringStore) ''k1'' = Some demoCall \<and> callReceiverId demoCall \<noteq> ''carol''"
    by (simp add: ringStore_call demoCall_fields)
  have 3: "findUnique (calls ringStore) ''k1'' = Some demoCall \<and> callReceiverId demoCall = ''bob''
     \<and> generateToken demoLiveKit (roomId demoCall) ''bob'' (map_option name (findUnique (users ringStore) ''bob''))
         = Some (''jwt/'' @ roomId demoCall @ ''/bob'')"
    by (simp add: ringStore_call demoCall_fields demoLiveKit_token)
  from acceptCall_outcomes [of ringStore "''nocall''" demoLiveKit "''bob''" 1730000002000] 1
  have a: "acceptCall demoLiveKit ringStore ''bob'' (Some ''nocall'') 1730000002000
     = (ringStore, [], (404, ErrorBody ''Call not found or unauthorized''))" by blast
  from acceptCall_outcomes [of ringStore "''k1''" demoLiveKit "''carol''" 1730000002000 demoCall] 2
  have b: "acceptCall demoLiveKit ringStore ''carol'' (Some ''k1'') 1730000002000
     = (ringStore, [], (404, ErrorBody ''Call not found or unauthorized''))" by blast
  from acceptCall_outcomes [of ringStore "''k1''" demoLiveKit "''bob''" 1730000002000 demoCall
      "''jwt/'' @ roomId demoCall @ ''/bob''"] 3
  have c: "acceptCall demoLiveKit ringStore ''bob'' (Some ''k1'') 1730000002000
     = (ringStore\<lparr>calls := updateRow (calls ringStore) ''k1''
           (demoCall\<lparr>callStatus := ACCEPTED, startTime := Some 1730000002000\<rparr>)\<rparr>,
        [(''alice'', ''call:accepted'', CallAcceptedPayload ''k1'' ''bob'')],
        (200, TokenBody (''jwt/'' @ roomId demoCall @ ''/bob'')))"
    by (simp add: demoCall_fields)
  from a b c show ?thesis by simp
qed

text \<open>
  C6 as stated fails: the call that alice has ended is in ENDED, neither INITIATED nor
  RINGING, and bob's accept succeeds and sets ACCEPTED.
\<close>

theorem acceptCall_counterexample:
  "map_option callStatus (findUnique (calls endedStore) ''k1'') = Some ENDED
   \<and> fst (snd (snd (acceptCall demoLiveKit endedStore ''bob'' (Some ''k1'') 1730000009000))) = 200
   \<and> map_option callStatus
       (findUnique (calls (fst (acceptCall demoLiveKit endedStore ''bob'' (Some ''k1'') 1730000009000))) ''k1'')
       = Some ACCEPTED"
  using acceptCall_applied [OF endedStore_call', of "''bob''" demoLiveKit 1730000009000]
  by (simp add: endedStore_call' endedCall_fields demoLiveKit_token)

section \<open>The status that end persists\<close>

text \<open>
  C7. The claim: \<open>end\<close> persists the requested status when it is one of REJECTED,
  MISSED, BUSY, ENDED, and ENDED otherwise. The code persists \<^verbatim>\<open>status || ENDED\<close>:
  on the call \<open>k1\<close>, an end with the requested status ACCEPTED is answered 200 and
  ACCEPTED is stored; a requested status outside the enum is not replaced by ENDED, the
  update throws and the answer is 500.
\<close>

theorem endCall_persists_any_status:
  "snd (snd (endCall ringStore ''alice'' (Some ''k1'') (Some ''ACCEPTED'') 1730000009000)) = (200, SuccessBody)
   \<and> map_option callStatus
       (findUnique (calls (fst (endCall ringStore ''alice'' (Some ''k1'') (Some ''ACCEPTED'') 1730000009000))) ''k1'')
       = Some ACCEPTED
   \<and> endCall ringStore ''alice'' (Some ''k1'') (Some ''DECLINED'') 1730000009000
       = (ringStore, [], (500, ErrorBody ''Failed to end call''))"
proof -
  have p: "parseCallStatus (orDefault (Some ''ACCEPTED'') ''ENDED'') = Some ACCEPTED"
    by (simp add: parseCallStatus_def orDefault_def)
  have q: "parseCallStatus (orDefault (Some ''DECLINED'') ''ENDED'') = None"
    by (simp add: parseCallStatus_def orDefault_def)
  have a: "''alice'' = callerId demoCall \<or> ''alice'' = callReceiverId demoCall"
    by (simp add: demoCall_fields)
  show ?thesis
    using endCall_applied [OF ringStore_call a p, of 1730000009000]
      endCall_invalid_status [OF ringStore_call a q, of 1730000009000]
    by simp
qed

section \<open>Room identifiers\<close>

text \<open>
  C8. The claim: every successful initiate produces a room identifier distinct from
  that of any other initiate. The identifier is made of the first eight characters of the
  caller id and the clock reading in milliseconds: two calls of alice (to bob and to
  carol) initiated at the same reading both succeed with 201 and carry the same room
  identifier.
\<close>

theorem initiateCall_room_collision:
  "fst (snd (snd (initiateCall demoCallType demoLiveKit demoStore ''alice''
                    (Some ''bob'') (Some ''VIDEO'') None 1730000000000 ''k1''))) = 201
   \<and> fst (snd (snd (initiateCall demoCallType demoLiveKit ringStore ''alice''
                    (Some ''carol'') (Some ''AUDIO'') None 1730000000000 ''k2''))) = 201
   \<and> map_option roomId
       (findUnique (calls (fst (initiateCall demoCallType demoLiveKit ringStore ''alice''
                                 (Some ''carol'') (Some ''AUDIO'') None 1730000000000 ''k2''))) ''k1'')
     = map_option roomId
       (findUnique (calls (fst (initiateCall demoCallType demoLiveKit ringStore ''alice''
                                 (Some ''carol'') (Some ''AUDIO'') None 1730000000000 ''k2''))) ''k2'')
   \<and> map_option roomId
       (findUnique (calls (fst (initiateCall demoCallType demoLiveKit ringStore ''alice''
                                 (Some ''carol'') (Some ''AUDIO'') None 1730000000000 ''k2''))) ''k2'')
     = Some ''room-alice-1730000000000''"
proof -
  have 0: "findUnique (calls demoStore) ''k1'' = None"
    by (simp add: demoStore_def findUnique_def)
  have 1: "findUnique (calls ringStore) ''k2'' = None"
    by (simp add: ringStore_eq findUnique_def)
  have k: "apiKey demoLiveKit \<noteq> []" "apiSecret demoLiveKit \<noteq> []"
    by (simp_all add: demoLiveKit_def)
  have t: "demoCallType ''VIDEO''" "demoCallType ''AUDIO''"
    by (simp_all add: demoCallType_def)
  have r: "makeRoomId ''alice'' 1730000000000 = ''room-alice-1730000000000''"
    by (simp add: makeRoomId_def showNat.simps digitChar_def)
  have a: "initiateCall demoCallType demoLiveKit demoStore ''alice''
              (Some ''bob'') (Some ''VIDEO'') None 1730000000000 ''k1''
     = (demoStore\<lparr>calls := createRow (calls demoStore) ''k1''
          \<lparr>callerId = ''alice'', callReceiverId = ''bob'', callType = ''VIDEO'',
           callConversationId = None, roomId = makeRoomId ''alice'' 1730000000000,
           callStatus = INITIATED, startTime = None, endTime = None, duration = None\<rparr>\<rparr>,
      [(''bob'', ''call:incoming'',
        CallIncomingPayload ''k1''
          (map_option (\<lambda>u. ''alice'') (findUnique (users demoStore) ''alice''))
          (map_option name (findUnique (users demoStore) ''alice''))
          ''VIDEO'' (makeRoomId ''alice'' 1730000000000) None)],
      (201, InitiatedBody ''k1''
          \<lparr>callerId = ''alice'', callReceiverId = ''bob'', callType = ''VIDEO'',
           callConversationId = None, roomId = makeRoomId ''alice'' 1730000000000,
           callStatus = INITIATED, startTime = None, endTime = None, duration = None\<rparr>
          (toJwt demoLiveKit (makeRoomId ''alice'' 1730000000000) ''alice''
             (map_option name (findUnique (users demoStore) ''alice'')))))"
    by (rule initiateCall_success) (simp_all add: t 0 k)
  have b: "initiateCall demoCallType demoLiveKit ringStore ''alice''
              (Some ''carol'') (Some ''AUDIO'') None 1730000000000 ''k2''
     = (ringStore\<lparr>calls := createRow (calls ringStore) ''k2''
          \<lparr>callerId = ''alice'', callReceiverId = ''carol'', callType = ''AUDIO'',
           callConversationId = None, roomId = makeRoomId ''alice'' 1730000000000,
           callStatus = INITIATED, startTime = None, endTime = None, duration = None\<rparr>\<rparr>,
      [(''carol'', ''call:incoming'',
        CallIncomingPayload ''k2''
          (map_option (\<lambda>u. ''alice'') (findUnique (users ringStore) ''alice''))
          (map_option name (findUnique (users ringStore) ''alice''))
          ''AUDIO'' (makeRoomId ''alice'' 1730000000000) None)],
      (201, InitiatedBody ''k2''
          \<lparr>callerId = ''alice'', callReceiverId = ''carol'', callType = ''AUDIO'',
           callConversationId = None, roomId = makeRoomId ''alice'' 1730000000000,
           callStatus = INITIATED, startTime = None, endTime = None, duration = None\<rparr>
          (toJwt demoLiveKit (makeRoomId ''alice'' 1730000000000) ''alice''
             (map_option name (findUnique (users ringStore) ''alice'')))))"
    by (rule initiateCall_success) (simp_all add: t 1 k)
  show ?thesis
    unfolding a b by (simp add: findUnique_createRow 1 ringStore_call demoCall_def r)
qed

end
